theory Spec2Isabelle
  imports Main "HOL-Library.Word"
begin

section \<open>Execution units: xla/service/cpu/runtime/thunk.h\<close>

subsection \<open>Thunk::Kind and Thunk::Info\<close>

text \<open>The enum class \<open>Thunk::Kind\<close>, enumerator by enumerator, in the order of the header.\<close>

datatype Kind =
    kAllGather
  | kAllReduce
  | kAllToAll
  | kCall
  | kCollectivePermute
  | kCopy
  | kConditional
  | kConvolution
  | kCustomCall
  | kDot
  | kFft
  | kInfeed
  | kKernel
  | kOutfeed
  | kPartitionId
  | kReduceScatter
  | kReplicaId
  | kRngGetAndUpdateState
  | kWhile

text \<open>The enumerators listed in declaration order.\<close>

definition all_kinds :: "Kind list" where
  "all_kinds =
     [kAllGather, kAllReduce, kAllToAll, kCall, kCollectivePermute, kCopy, kConditional,
      kConvolution, kCustomCall, kDot, kFft, kInfeed, kKernel, kOutfeed, kPartitionId,
      kReduceScatter, kReplicaId, kRngGetAndUpdateState, kWhile]"

text \<open>\<open>struct Info { std::string op_name; std::string module_name; int64_t module_id; }\<close>
  (the field \<open>module_name\<close> is written \<open>module_name'\<close>: the plain name is reserved).\<close>

record Info =
  op_name :: string
  module_name' :: string
  module_id :: "64 word"

subsection \<open>Footprint elements\<close>

text \<open>
  Modelled from the spec: the headers \<open>xla/runtime/buffer_use.h\<close> and
  \<open>xla/service/cpu/runtime/resource_use.h\<close> are not among the sources. The spec gives a
  buffer use as a buffer-slice identifier (allocation, byte offset, byte length) with an
  access mode in {Read, Write}, and a resource use as an abstract resource identifier with
  an access mode.
\<close>

datatype access_mode = Read | Write

record BufferSlice =
  slice_allocation :: nat
  slice_offset :: nat
  slice_length :: nat

record BufferUse =
  buffer_slice :: BufferSlice
  buffer_access :: access_mode

record ResourceUse =
  resource_id :: nat
  resource_access :: access_mode

text \<open>
  Modelled from the spec: two slices overlap when they lie in the same allocation and their
  half-open byte ranges \<open>[offset, offset + length)\<close> intersect (the spec writes slices as
  \<open>X[0:64)\<close>).
\<close>

definition slices_overlap :: "BufferSlice \<Rightarrow> BufferSlice \<Rightarrow> bool" where
  "slices_overlap s t =
     (slice_allocation s = slice_allocation t
      \<and> slice_offset s < slice_offset t + slice_length t
      \<and> slice_offset t < slice_offset s + slice_length s)"

text \<open>
  Modelled from the spec: \<open>Conflicts(a, b)\<close> for two footprint elements of the same
  category is "identifier/slice overlap AND (a.mode = Write OR b.mode = Write)".  For
  buffer uses the overlap is that of the slices, for resource uses it is having the same
  identifier.
\<close>

definition buffer_Conflicts :: "BufferUse \<Rightarrow> BufferUse \<Rightarrow> bool" where
  "buffer_Conflicts a b =
     (slices_overlap (buffer_slice a) (buffer_slice b)
      \<and> (buffer_access a = Write \<or> buffer_access b = Write))"

definition resource_Conflicts :: "ResourceUse \<Rightarrow> ResourceUse \<Rightarrow> bool" where
  "resource_Conflicts a b =
     (resource_id a = resource_id b
      \<and> (resource_access a = Write \<or> resource_access b = Write))"

subsection \<open>class Thunk\<close>

text \<open>
  A thunk object: the two private members \<open>kind_\<close> and \<open>info_\<close> of the base class
  (written \<open>kind'\<close> and \<open>info'\<close>: a name cannot end with an underscore), the
  members of the concrete subclass (\<open>derived\<close>, of a type \<open>'s\<close> the base class knows
  nothing about), and its virtual functions.  \<open>buffer_uses\<close> and \<open>Execute\<close> are pure
  virtual, so every object has an implementation of them; \<open>resource_uses\<close> has a default
  in the base class, so a subclass either overrides it (\<open>Some\<close>) or does not (\<open>None\<close>).
  \<open>'p\<close> stands for \<open>ExecuteParams\<close> and \<open>'e\<close> for the returned
  \<open>tsl::AsyncValueRef<ExecuteEvent>\<close>.
\<close>

record ('s, 'p, 'e) Thunk =
  kind' :: Kind
  info' :: Info
  derived :: 's
  buffer_uses_impl :: "'s \<Rightarrow> BufferUse list"
  resource_uses_override :: "('s \<Rightarrow> ResourceUse list) option"
  Execute_impl :: "'s \<Rightarrow> 'p \<Rightarrow> 's \<times> 'e"

text \<open>\<open>Thunk(Kind kind, Info info) : kind_(kind), info_(std::move(info)) {}\<close>, called by
  the constructor of a subclass, which supplies its own members and virtual functions.\<close>

definition Thunk_ctor ::
  "Kind \<Rightarrow> Info \<Rightarrow> 's \<Rightarrow> ('s \<Rightarrow> BufferUse list) \<Rightarrow> ('s \<Rightarrow> ResourceUse list) option
     \<Rightarrow> ('s \<Rightarrow> 'p \<Rightarrow> 's \<times> 'e) \<Rightarrow> ('s, 'p, 'e) Thunk" where
  "Thunk_ctor kind info d bu ru ex =
     \<lparr>kind' = kind, info' = info, derived = d, buffer_uses_impl = bu,
      resource_uses_override = ru, Execute_impl = ex\<rparr>"

text \<open>\<open>Kind kind() const { return kind_; }\<close>\<close>

definition kind :: "('s, 'p, 'e) Thunk \<Rightarrow> Kind" where
  "kind t = kind' t"

text \<open>\<open>const Info& info() const { return info_; }\<close>\<close>

definition info :: "('s, 'p, 'e) Thunk \<Rightarrow> Info" where
  "info t = info' t"

text \<open>\<open>virtual BufferUses buffer_uses() const = 0;\<close>: dispatches to the subclass.\<close>

definition buffer_uses :: "('s, 'p, 'e) Thunk \<Rightarrow> BufferUse list" where
  "buffer_uses t = buffer_uses_impl t (derived t)"

text \<open>\<open>virtual ResourceUses resource_uses() const { return {}; }\<close>: the override of the
  subclass when there is one, the base class's empty vector otherwise.\<close>

definition resource_uses :: "('s, 'p, 'e) Thunk \<Rightarrow> ResourceUse list" where
  "resource_uses t =
     (case resource_uses_override t of
        None \<Rightarrow> []
      | Some f \<Rightarrow> f (derived t))"

text \<open>\<open>virtual tsl::AsyncValueRef<ExecuteEvent> Execute(const ExecuteParams& params) = 0;\<close>
  It is the one non-const member function: the subclass may change its own members.  The
  members \<open>kind_\<close> and \<open>info_\<close> are private to \<open>Thunk\<close>, out of a subclass's reach.\<close>

definition Execute :: "('s, 'p, 'e) Thunk \<Rightarrow> 'p \<Rightarrow> ('s, 'p, 'e) Thunk \<times> 'e" where
  "Execute t params =
     (case Execute_impl t (derived t) params of
        (d', ev) \<Rightarrow> (t\<lparr>derived := d'\<rparr>, ev))"

text \<open>
  The public operations of a thunk object.  The copy constructor and copy assignment are
  deleted, so no operation replaces the object by another one.
\<close>

datatype 'p Thunk_op =
    Op_kind
  | Op_info
  | Op_buffer_uses
  | Op_resource_uses
  | Op_Execute 'p

fun Thunk_step :: "('s, 'p, 'e) Thunk \<Rightarrow> 'p Thunk_op \<Rightarrow> ('s, 'p, 'e) Thunk" where
  "Thunk_step t Op_kind = t"
| "Thunk_step t Op_info = t"
| "Thunk_step t Op_buffer_uses = t"
| "Thunk_step t Op_resource_uses = t"
| "Thunk_step t (Op_Execute params) = fst (Execute t params)"

fun Thunk_run :: "('s, 'p, 'e) Thunk \<Rightarrow> 'p Thunk_op list \<Rightarrow> ('s, 'p, 'e) Thunk" where
  "Thunk_run t [] = t"
| "Thunk_run t (x # xs) = Thunk_run (Thunk_step t x) xs"

subsection \<open>class ThunkSequence\<close>

text \<open>\<open>class ThunkSequence : public std::vector<std::unique_ptr<Thunk>>\<close>: a vector of
  owned thunks, in program order.\<close>

type_synonym ('s, 'p, 'e) ThunkSequence = "('s, 'p, 'e) Thunk list"

text \<open>\<open>static ThunkSequence Empty() { return ThunkSequence(); }\<close>\<close>

definition ThunkSequence_Empty :: "('s, 'p, 'e) ThunkSequence" where
  "ThunkSequence_Empty = []"

text \<open>
  Modelled from the spec: the private constructor
  \<open>explicit ThunkSequence(std::unique_ptr<Thunk> thunk)\<close> is declared in the header and
  defined in \<open>thunk.cc\<close>, which is not among the sources.  The header documents its one
  caller \<open>Of\<close> as returning "a thunk sequence that contains a single thunk".
\<close>

definition ThunkSequence_ctor :: "('s, 'p, 'e) Thunk \<Rightarrow> ('s, 'p, 'e) ThunkSequence" where
  "ThunkSequence_ctor thunk = [thunk]"

text \<open>
  \<open>ThunkSequence::Of<T>(args...)\<close>.  \<open>T::Create\<close> is the factory of the thunk type, a
  parameter here; it returns \<open>absl::StatusOr\<close>, an error status (\<open>Inl\<close>) or the thunk
  (\<open>Inr\<close>).  \<open>TF_ASSIGN_OR_RETURN\<close> returns the status from \<open>Of\<close> when it is not ok and
  binds the thunk otherwise.
\<close>

definition ThunkSequence_Of ::
  "('a \<Rightarrow> 'status + ('s, 'p, 'e) Thunk) \<Rightarrow> 'a \<Rightarrow> 'status + ('s, 'p, 'e) ThunkSequence" where
  "ThunkSequence_Of Create args =
     (case Create args of
        Inl status \<Rightarrow> Inl status
      | Inr thunk \<Rightarrow> Inr (ThunkSequence_ctor thunk))"

text \<open>
  Modelled from the spec: \<open>ThunkSequence::buffer_uses\<close>, \<open>resource_uses\<close> and \<open>Append\<close>
  are declared in the header and defined in \<open>thunk.cc\<close>, which is not among the sources.
  The spec: "Aggregate buffer/resource uses = the union of all contained units' uses", and
  append is "concatenating another sequence, which exclusively transfers ownership of its
  units".  The aggregate is an ordered sequence, as a unit's own uses are: the uses of each
  unit, unit after unit in program order.
\<close>

fun ThunkSequence_buffer_uses :: "('s, 'p, 'e) ThunkSequence \<Rightarrow> BufferUse list" where
  "ThunkSequence_buffer_uses [] = []"
| "ThunkSequence_buffer_uses (thunk # rest) =
     buffer_uses thunk @ ThunkSequence_buffer_uses rest"

fun ThunkSequence_resource_uses :: "('s, 'p, 'e) ThunkSequence \<Rightarrow> ResourceUse list" where
  "ThunkSequence_resource_uses [] = []"
| "ThunkSequence_resource_uses (thunk # rest) =
     resource_uses thunk @ ThunkSequence_resource_uses rest"

definition ThunkSequence_Append ::
  "('s, 'p, 'e) ThunkSequence \<Rightarrow> ('s, 'p, 'e) ThunkSequence \<Rightarrow> ('s, 'p, 'e) ThunkSequence" where
  "ThunkSequence_Append this other = this @ other"

text \<open>
  The member functions \<open>ThunkSequence\<close> itself declares for an existing sequence:
  \<open>buffer_uses() const\<close>, \<open>resource_uses() const\<close> and \<open>Append(ThunkSequence other)\<close>.
  (\<open>Empty\<close> and \<open>Of\<close> are static: they make a sequence and touch no existing one.)
\<close>

datatype ('s, 'p, 'e) ThunkSequence_op =
    Seq_buffer_uses
  | Seq_resource_uses
  | Seq_Append "('s, 'p, 'e) ThunkSequence"

fun ThunkSequence_step ::
  "('s, 'p, 'e) ThunkSequence \<Rightarrow> ('s, 'p, 'e) ThunkSequence_op \<Rightarrow> ('s, 'p, 'e) ThunkSequence" where
  "ThunkSequence_step this Seq_buffer_uses = this"
| "ThunkSequence_step this Seq_resource_uses = this"
| "ThunkSequence_step this (Seq_Append other) = ThunkSequence_Append this other"

fun ThunkSequence_run ::
  "('s, 'p, 'e) ThunkSequence \<Rightarrow> ('s, 'p, 'e) ThunkSequence_op list \<Rightarrow> ('s, 'p, 'e) ThunkSequence" where
  "ThunkSequence_run this [] = this"
| "ThunkSequence_run this (x # xs) = ThunkSequence_run (ThunkSequence_step this x) xs"

text \<open>
  The base class is public, so every public member function of
  \<open>std::vector<std::unique_ptr<Thunk>>\<close> is one of a sequence too.  Two uses of them:
  \<open>seq.clear()\<close>, which destroys every element, and \<open>std::swap(seq[i], seq[j])\<close> through
  the references the non-const \<open>operator[]\<close> returns (indexing out of range is undefined
  behaviour in C++; the model leaves the vector as it is there).
\<close>

definition vector_clear :: "'a list \<Rightarrow> 'a list" where
  "vector_clear v = []"

definition vector_swap_elements :: "nat \<Rightarrow> nat \<Rightarrow> 'a list \<Rightarrow> 'a list" where
  "vector_swap_elements i j v =
     (if i < length v \<and> j < length v then v[i := v ! j, j := v ! i] else v)"

text \<open>Example values: two slices, uses of them and of a resource, and two thunks with no
  members of their own, the second of which overrides \<open>resource_uses\<close>.\<close>

definition example_info :: Info where
  "example_info = \<lparr>op_name = ''dot.1'', module_name' = ''main'', module_id = 7\<rparr>"

definition example_slice_X :: BufferSlice where
  "example_slice_X = \<lparr>slice_allocation = 0, slice_offset = 0, slice_length = 64\<rparr>"

definition example_slice_Y :: BufferSlice where
  "example_slice_Y = \<lparr>slice_allocation = 1, slice_offset = 0, slice_length = 32\<rparr>"

definition example_write_X :: BufferUse where
  "example_write_X = \<lparr>buffer_slice = example_slice_X, buffer_access = Write\<rparr>"

definition example_read_X :: BufferUse where
  "example_read_X = \<lparr>buffer_slice = example_slice_X, buffer_access = Read\<rparr>"

definition example_write_Y :: BufferUse where
  "example_write_Y = \<lparr>buffer_slice = example_slice_Y, buffer_access = Write\<rparr>"

definition example_rng_write :: ResourceUse where
  "example_rng_write = \<lparr>resource_id = 3, resource_access = Write\<rparr>"

definition example_rng_read :: ResourceUse where
  "example_rng_read = \<lparr>resource_id = 3, resource_access = Read\<rparr>"

definition example_thunk_U1 :: "(unit, unit, bool) Thunk" where
  "example_thunk_U1 =
     Thunk_ctor kKernel example_info () (\<lambda>_. [example_write_X]) None (\<lambda>_ _. ((), True))"

definition example_thunk_U2 :: "(unit, unit, bool) Thunk" where
  "example_thunk_U2 =
     Thunk_ctor kRngGetAndUpdateState example_info () (\<lambda>_. [example_read_X])
       (Some (\<lambda>_. [example_rng_write])) (\<lambda>_ _. ((), True))"

text \<open>A factory in the style of \<open>T::Create\<close>: it refuses the argument 0 with an error
  status and makes a thunk otherwise.\<close>

definition example_Create :: "nat \<Rightarrow> string + (unit, unit, bool) Thunk" where
  "example_Create n = (if n = 0 then Inl ''invalid argument'' else Inr example_thunk_U1)"

section \<open>The pooled device allocator: GpuCudaMallocAsyncAllocator\<close>

subsection \<open>Data\<close>

text \<open>
  Addresses (\<open>void*\<close>, \<open>CUdeviceptr\<close>, the stream and pool handles) and \<open>size_t\<close> are
  64-bit values; the null pointer is 0.
\<close>

type_synonym address = "64 word"
type_synonym size_t = "64 word"

text \<open>
  The driver's status code.  The code tells four cases apart: \<open>CUDA_SUCCESS\<close>, the one
  value that is zero (\<open>if (result)\<close> tests for another one), \<open>CUDA_ERROR_OUT_OF_MEMORY\<close>,
  \<open>CUDA_ERROR_DEINITIALIZED\<close>, and any other error, kept with its number.
\<close>

datatype CUresult =
    CUDA_SUCCESS
  | CUDA_ERROR_OUT_OF_MEMORY
  | CUDA_ERROR_DEINITIALIZED
  | CUDA_ERROR_other nat

text \<open>
  Modelled from the spec: the declaration of \<open>tsl::AllocatorStats\<close>, the "usage snapshot"
  of the spec, is in \<open>xla/tsl/framework/allocator.h\<close>, not among the sources.  These are
  the fields that \<open>AllocateRaw\<close> and \<open>DeallocateRaw\<close> read and write, each an \<open>int64_t\<close>: a 64-bit word,
  read as a signed number by \<open>sint\<close> and compared by \<open><s\<close>.
\<close>

record AllocatorStats =
  num_allocs :: "64 word"
  bytes_in_use :: "64 word"
  peak_bytes_in_use :: "64 word"
  largest_alloc_size :: "64 word"

text \<open>
  The members of the allocator object that \<open>AllocateRaw\<close> and \<open>DeallocateRaw\<close> use
  (a member \<open>name_\<close> of the source is written \<open>name'\<close>).  \<open>stats_\<close> is a
  \<open>std::unique_ptr\<close>, null (\<open>None\<close>) when no statistics are computed.  \<open>size_map_\<close>
  maps a live pointer to its size; it is kept as a list of (pointer, size) entries.
\<close>

record allocator =
  stats' :: "AllocatorStats option"
  size_map' :: "(address \<times> size_t) list"
  cuda_stream' :: address
  pool' :: address
  sync_mode' :: bool

text \<open>The operations of the map type that the code uses on \<open>size_map_\<close>.\<close>

text \<open>\<open>m.contains(k)\<close>\<close>

definition map_contains :: "address \<Rightarrow> (address \<times> size_t) list \<Rightarrow> bool" where
  "map_contains k m = (map_of m k \<noteq> None)"

text \<open>\<open>m.emplace(k, v)\<close>: inserts when the key is absent and leaves the map as it is
  otherwise; the boolean (\<open>.second\<close>) tells whether it inserted.\<close>

definition map_emplace ::
  "address \<Rightarrow> size_t \<Rightarrow> (address \<times> size_t) list \<Rightarrow> (address \<times> size_t) list \<times> bool" where
  "map_emplace k v m =
     (case map_of m k of
        None \<Rightarrow> ((k, v) # m, True)
      | Some _ \<Rightarrow> (m, False))"

text \<open>\<open>m[k]\<close>: the value at the key; an absent key is inserted first, with the value 0.\<close>

definition map_subscript ::
  "address \<Rightarrow> (address \<times> size_t) list \<Rightarrow> size_t \<times> (address \<times> size_t) list" where
  "map_subscript k m =
     (case map_of m k of
        None \<Rightarrow> (0, (k, 0) # m)
      | Some v \<Rightarrow> (v, m))"

text \<open>\<open>m.erase(k)\<close>\<close>

definition map_erase :: "address \<Rightarrow> (address \<times> size_t) list \<Rightarrow> (address \<times> size_t) list" where
  "map_erase k m = filter (\<lambda>(k', v). k' \<noteq> k) m"


subsection \<open>The driver\<close>

text \<open>
  The CUDA driver is outside the program.  Every call into it is recorded, in order, in a
  history; what the driver answers is a function of the history up to and including the
  call it answers: the status code, and for an allocation the value of the pointer
  variable \<open>ptr\<close> after the call (\<open>ptr\<close> is initialised to \<open>nullptr\<close> and passed by
  address).  Messages to the log are not modelled.
\<close>

datatype pool_attribute =
    CU_MEMPOOL_ATTR_RESERVED_MEM_CURRENT
  | CU_MEMPOOL_ATTR_USED_MEM_CURRENT
  | CU_MEMPOOL_ATTR_RESERVED_MEM_HIGH
  | CU_MEMPOOL_ATTR_USED_MEM_HIGH

datatype driver_call =
    ScopedActivateExecutorContext
  | cuMemAllocFromPoolAsync size_t address address
  | cuStreamSynchronize address
  | cuMemGetInfo
  | cuMemPoolGetAttribute address pool_attribute
  | cuMemFreeAsync address address

type_synonym driver = "driver_call list \<Rightarrow> CUresult \<times> address"

text \<open>
  What the preprocessor decides: whether \<open>TF_CUDA_MALLOC_ASYNC_SUPPORTED\<close> is defined,
  the value of \<open>CUDA_VERSION\<close>, and whether \<open>DCHECK\<close> checks (debug builds) or is
  compiled out.
\<close>

record build =
  TF_CUDA_MALLOC_ASYNC_SUPPORTED :: bool
  CUDA_VERSION :: nat
  DCHECK_IS_ON :: bool

text \<open>How a call can end the process: a failed \<open>CHECK\<close>, \<open>LOG(FATAL)\<close>, a failed
  \<open>DCHECK\<close>.\<close>

datatype fatal = CHECK_failed | LOG_FATAL | DCHECK_failed

subsection \<open>PrintAllocatorStatisticsNoLock\<close>

text \<open>It writes to the log; of its effects only the four queries of the pool's attributes
  (when \<open>CUDA_VERSION >= 11030\<close>) reach the driver.\<close>

definition PrintAllocatorStatisticsNoLock ::
  "build \<Rightarrow> allocator \<Rightarrow> driver_call list \<Rightarrow> driver_call list" where
  "PrintAllocatorStatisticsNoLock b a calls =
     (if 11030 \<le> CUDA_VERSION b
      then calls @
        [cuMemPoolGetAttribute (pool' a) CU_MEMPOOL_ATTR_RESERVED_MEM_CURRENT,
         cuMemPoolGetAttribute (pool' a) CU_MEMPOOL_ATTR_USED_MEM_CURRENT,
         cuMemPoolGetAttribute (pool' a) CU_MEMPOOL_ATTR_RESERVED_MEM_HIGH,
         cuMemPoolGetAttribute (pool' a) CU_MEMPOOL_ATTR_USED_MEM_HIGH]
      else calls)"

subsection \<open>AllocateRaw\<close>

text \<open>
  The request to the driver in \<open>AllocateRaw\<close>: the context is activated, the pool is asked
  for \<open>num_bytes\<close>, and when the answer is \<open>CUDA_ERROR_OUT_OF_MEMORY\<close> the stream is
  synchronised and the pool is asked once more.  The result: the last status, the pointer
  variable, the history.
\<close>

definition AllocateRaw_request ::
  "driver \<Rightarrow> allocator \<Rightarrow> driver_call list \<Rightarrow> size_t \<Rightarrow> CUresult \<times> address \<times> driver_call list" where
  "AllocateRaw_request drv a calls num_bytes =
     (let ask = cuMemAllocFromPoolAsync num_bytes (pool' a) (cuda_stream' a);
          calls1 = calls @ [ScopedActivateExecutorContext, ask];
          (result, ptr) = drv calls1
      in if result = CUDA_ERROR_OUT_OF_MEMORY
         then (let calls2 = calls1 @ [cuStreamSynchronize (cuda_stream' a), ask];
                   (result2, ptr2) = drv calls2
               in (result2, ptr2, calls2))
         else (result, ptr, calls1))"

text \<open>The update of the statistics after a successful allocation (the block under
  \<open>// Update stats.\<close>, without the \<open>DCHECK\<close>): the new statistics, the new map, and
  whether the pointer was inserted.\<close>

definition AllocateRaw_update_stats ::
  "AllocatorStats \<Rightarrow> (address \<times> size_t) list \<Rightarrow> address \<Rightarrow> size_t
     \<Rightarrow> AllocatorStats \<times> (address \<times> size_t) list \<times> bool" where
  "AllocateRaw_update_stats st m ptr num_bytes =
     (let in_use = bytes_in_use st + num_bytes;
          st1 = st\<lparr>num_allocs := num_allocs st + 1,
                   bytes_in_use := in_use,
                   peak_bytes_in_use :=
                     (if peak_bytes_in_use st <s in_use then in_use else peak_bytes_in_use st),
                   largest_alloc_size :=
                     (if largest_alloc_size st < num_bytes then num_bytes
                      else largest_alloc_size st)\<rparr>;
          (m1, ptr_inserted) = map_emplace ptr num_bytes m
      in (st1, m1, ptr_inserted))"

text \<open>
  \<open>void* AllocateRaw(size_t alignment, size_t num_bytes)\<close>.  It returns the pointer and
  leaves the allocator and the history changed, or ends the process.  Without
  \<open>TF_CUDA_MALLOC_ASYNC_SUPPORTED\<close> the body is \<open>return nullptr;\<close>.
\<close>

definition AllocateRaw ::
  "build \<Rightarrow> driver \<Rightarrow> allocator \<Rightarrow> driver_call list \<Rightarrow> size_t \<Rightarrow> size_t
     \<Rightarrow> fatal + (address \<times> allocator \<times> driver_call list)" where
  "AllocateRaw b drv a calls alignment num_bytes =
     (if \<not> TF_CUDA_MALLOC_ASYNC_SUPPORTED b then Inr (0, a, calls)
      else if cuda_stream' a = 0 then Inl CHECK_failed
      else if pool' a = 0 then Inl LOG_FATAL
      else
        (case AllocateRaw_request drv a calls num_bytes of
           (result, ptr, calls1) \<Rightarrow>
             if result \<noteq> CUDA_SUCCESS
             then
               (let calls2 = calls1 @ [cuMemGetInfo];
                    calls3 = (if stats' a \<noteq> None
                              then PrintAllocatorStatisticsNoLock b a calls2 else calls2)
                in Inr (0, a, calls3))
             else
               (let calls2 = (if sync_mode' a
                              then calls1 @ [cuStreamSynchronize (cuda_stream' a)]
                              else calls1)
                in case stats' a of
                     None \<Rightarrow> Inr (ptr, a, calls2)
                   | Some st \<Rightarrow>
                       (case AllocateRaw_update_stats st (size_map' a) ptr num_bytes of
                          (st1, m1, ptr_inserted) \<Rightarrow>
                            if DCHECK_IS_ON b \<and> \<not> ptr_inserted then Inl DCHECK_failed
                            else Inr (ptr, a\<lparr>stats' := Some st1, size_map' := m1\<rparr>, calls2)))))"

subsection \<open>DeallocateRaw\<close>

text \<open>
  \<open>void DeallocateRaw(void* ptr)\<close>.  Without \<open>TF_CUDA_MALLOC_ASYNC_SUPPORTED\<close> the body is
  empty.  A failure of \<open>cuMemFreeAsync\<close> is logged (after a query of the memory
  information, unless the error is \<open>CUDA_ERROR_DEINITIALIZED\<close>) and the function goes on.
\<close>

definition DeallocateRaw ::
  "build \<Rightarrow> driver \<Rightarrow> allocator \<Rightarrow> driver_call list \<Rightarrow> address
     \<Rightarrow> fatal + (allocator \<times> driver_call list)" where
  "DeallocateRaw b drv a calls ptr =
     (if \<not> TF_CUDA_MALLOC_ASYNC_SUPPORTED b then Inr (a, calls)
      else if ptr = 0 then Inr (a, calls)
      else
        (let calls1 = calls @ [cuMemFreeAsync ptr (cuda_stream' a)];
             result = fst (drv calls1);
             calls2 = (if result \<noteq> CUDA_SUCCESS \<and> result \<noteq> CUDA_ERROR_DEINITIALIZED
                       then calls1 @ [ScopedActivateExecutorContext, cuMemGetInfo]
                       else calls1);
             calls3 = (if sync_mode' a
                       then calls2 @ [cuStreamSynchronize (cuda_stream' a)]
                       else calls2)
         in case stats' a of
              None \<Rightarrow> Inr (a, calls3)
            | Some st \<Rightarrow>
                if DCHECK_IS_ON b \<and> \<not> map_contains ptr (size_map' a) then Inl DCHECK_failed
                else
                  (case map_subscript ptr (size_map' a) of
                     (size', m1) \<Rightarrow>
                       Inr (a\<lparr>stats' := Some (st\<lparr>bytes_in_use := bytes_in_use st - size'\<rparr>),
                              size_map' := map_erase ptr m1\<rparr>,
                            calls3))))"

subsection \<open>The invariant of the statistics\<close>


text \<open>Example states: a build with the allocator supported, an allocator with statistics
  that holds one allocation of 256 bytes at \<open>0x1000\<close>, and two drivers, one whose pool
  answers every call with success and the address \<open>0x2000\<close>, one that is out of memory.\<close>

definition example_build :: build where
  "example_build =
     \<lparr>TF_CUDA_MALLOC_ASYNC_SUPPORTED = True, CUDA_VERSION = 12030, DCHECK_IS_ON = True\<rparr>"

definition example_stats :: AllocatorStats where
  "example_stats =
     \<lparr>num_allocs = 1, bytes_in_use = 256, peak_bytes_in_use = 256,
      largest_alloc_size = 256\<rparr>"

definition example_allocator :: allocator where
  "example_allocator =
     \<lparr>stats' = Some example_stats, size_map' = [(0x1000, 256)], cuda_stream' = 0x77,
      pool' = 0x99, sync_mode' = False\<rparr>"

definition example_driver_ok :: driver where
  "example_driver_ok calls = (CUDA_SUCCESS, 0x2000)"

definition example_driver_oom :: driver where
  "example_driver_oom calls = (CUDA_ERROR_OUT_OF_MEMORY, 0)"

text \<open>A driver that reports success and leaves the pointer variable null, and an allocator
  as the constructor leaves it (\<open>cuda_stream_ = nullptr\<close>), before a stream is set.\<close>

definition example_driver_null :: driver where
  "example_driver_null calls = (CUDA_SUCCESS, 0)"

definition example_allocator_no_stream :: allocator where
  "example_allocator_no_stream = example_allocator\<lparr>cuda_stream' := 0\<rparr>"

section \<open>Theorems about execution units\<close>

text \<open>
  C7: the unit kind ranges over exactly the 19 enumerators AllGather, AllReduce, AllToAll,
  Call, CollectivePermute, Copy, Conditional, Convolution, CustomCall, Dot, Fft, Infeed,
  Kernel, Outfeed, PartitionId, ReduceScatter, ReplicaId, RngGetAndUpdateState, While: the
  19 are pairwise different, every value of the type is one of them, and so is the
  \<open>kind()\<close> of every unit.
\<close>

theorem Kind_closed_19:
  "length all_kinds = 19 \<and> distinct all_kinds \<and> set all_kinds = (UNIV :: Kind set)
   \<and> kind (t :: ('s, 'p, 'e) Thunk) \<in> set all_kinds"
proof -
  have len: "length all_kinds = 19"
    by (simp add: all_kinds_def)
  have dist: "distinct all_kinds"
    by (simp add: all_kinds_def)
  have univ: "k \<in> set all_kinds" for k :: Kind
    by (cases k) (simp_all add: all_kinds_def)
  from univ have "set all_kinds = (UNIV :: Kind set)"
    by blast
  with len dist univ show ?thesis
    by simp
qed

text \<open>
  C4: the default implementation of \<open>resource_uses()\<close> returns the empty sequence: for
  every unit whose class does not override it, \<open>resource_uses()\<close> is \<open>[]\<close>.
\<close>

theorem resource_uses_default_empty:
  "resource_uses_override t = None \<Longrightarrow> resource_uses t = []"
  by (simp add: resource_uses_def)

theorem resource_uses_default_empty_witness:
  "resource_uses_override example_thunk_U1 = None \<and> resource_uses example_thunk_U1 = []"
proof -
  have h: "resource_uses_override example_thunk_U1 = None"
    by (simp add: example_thunk_U1_def Thunk_ctor_def)
  from h resource_uses_default_empty [OF h] show ?thesis
    by simp
qed

text \<open>Every operation of a thunk leaves the two private members of the base class alone.\<close>

lemma Thunk_step_identity:
  "kind' (Thunk_step t x) = kind' t \<and> info' (Thunk_step t x) = info' t"
  by (cases x) (simp_all add: Execute_def split: prod.split)

lemma Thunk_run_identity:
  "kind' (Thunk_run t xs) = kind' t \<and> info' (Thunk_run t xs) = info' t"
proof (induction xs arbitrary: t)
  case Nil
  show ?case by simp
next
  case (Cons x xs)
  from Cons.IH [of "Thunk_step t x"] Thunk_step_identity [of t x]
  show ?case by simp
qed

text \<open>
  C5: the identity of a unit is immutable: a unit constructed with a kind and an info
  answers \<open>kind()\<close> and \<open>info()\<close> with exactly these values after any series of its
  public operations (\<open>kind\<close>, \<open>info\<close>, \<open>buffer_uses\<close>, \<open>resource_uses\<close>, \<open>Execute\<close>),
  whatever the subclass does to its own members.
\<close>

theorem Thunk_identity_immutable:
  "kind (Thunk_run (Thunk_ctor k i d bu ru ex) ops) = k
   \<and> info (Thunk_run (Thunk_ctor k i d bu ru ex) ops) = i"
  using Thunk_run_identity [of "Thunk_ctor k i d bu ru ex" ops]
  by (simp add: kind_def info_def Thunk_ctor_def)

text \<open>
  C8: \<open>ThunkSequence::Of<T>\<close> returns exactly the error of \<open>T::Create\<close> when the
  creation fails, and no sequence; when it succeeds, it returns the sequence that holds
  exactly the one thunk \<open>T::Create\<close> produced.
\<close>

theorem ThunkSequence_Of_result:
  "(Create args = Inl status \<longrightarrow> ThunkSequence_Of Create args = Inl status)
   \<and> (Create args = Inr thunk \<longrightarrow> ThunkSequence_Of Create args = Inr [thunk])"
  by (simp add: ThunkSequence_Of_def ThunkSequence_ctor_def)

theorem ThunkSequence_Of_result_witness:
  "example_Create 0 = Inl ''invalid argument''
   \<and> ThunkSequence_Of example_Create 0 = Inl ''invalid argument''
   \<and> example_Create 1 = Inr example_thunk_U1
   \<and> ThunkSequence_Of example_Create 1 = Inr [example_thunk_U1]"
proof -
  have bad: "example_Create 0 = Inl ''invalid argument''"
    by (simp add: example_Create_def)
  have good: "example_Create 1 = Inr example_thunk_U1"
    by (simp add: example_Create_def)
  from bad good
    ThunkSequence_Of_result [of example_Create 0 "''invalid argument''" example_thunk_U1]
    ThunkSequence_Of_result [of example_Create 1 "''invalid argument''" example_thunk_U1]
  show ?thesis
    by simp
qed

text \<open>
  C3: the aggregate \<open>buffer_uses()\<close> of a sequence is the union of the buffer uses of its
  units, and \<open>resource_uses()\<close> the union of their resource uses: every use of every unit
  of the sequence is in the aggregate, and nothing else is.
\<close>

theorem ThunkSequence_uses_union:
  "set (ThunkSequence_buffer_uses seq) = (\<Union>t \<in> set seq. set (buffer_uses t))
   \<and> set (ThunkSequence_resource_uses seq) = (\<Union>t \<in> set seq. set (resource_uses t))"
  by (induction seq) simp_all

text \<open>
  C1: \<open>Conflicts(a, b)\<close> holds if and only if the identifiers or slices of the two
  elements overlap and at least one of the two access modes is Write; two reads never
  conflict; and the predicate is symmetric.  For buffer uses and for resource uses.
\<close>

theorem Conflicts_overlap_write_symmetric:
  "(buffer_Conflicts a b \<longleftrightarrow>
      slices_overlap (buffer_slice a) (buffer_slice b)
      \<and> (buffer_access a = Write \<or> buffer_access b = Write))
   \<and> (buffer_access a = Read \<and> buffer_access b = Read \<longrightarrow> \<not> buffer_Conflicts a b)
   \<and> buffer_Conflicts a b = buffer_Conflicts b a
   \<and> (resource_Conflicts r s \<longleftrightarrow>
      resource_id r = resource_id s
      \<and> (resource_access r = Write \<or> resource_access s = Write))
   \<and> (resource_access r = Read \<and> resource_access s = Read \<longrightarrow> \<not> resource_Conflicts r s)
   \<and> resource_Conflicts r s = resource_Conflicts s r"
proof -
  have sym: "slices_overlap x y = slices_overlap y x" for x y
    by (auto simp add: slices_overlap_def)
  have b1: "buffer_Conflicts a b = buffer_Conflicts b a"
    unfolding buffer_Conflicts_def using sym [of "buffer_slice a" "buffer_slice b"] by blast
  have b2: "buffer_access a = Read \<and> buffer_access b = Read \<longrightarrow> \<not> buffer_Conflicts a b"
    by (simp add: buffer_Conflicts_def)
  have r1: "resource_Conflicts r s = resource_Conflicts s r"
    unfolding resource_Conflicts_def by auto
  have r2: "resource_access r = Read \<and> resource_access s = Read \<longrightarrow> \<not> resource_Conflicts r s"
    by (simp add: resource_Conflicts_def)
  from b1 b2 r1 r2 show ?thesis
    by (simp add: buffer_Conflicts_def resource_Conflicts_def)
qed

theorem Conflicts_overlap_write_symmetric_witness:
  "buffer_Conflicts example_write_X example_read_X
   \<and> buffer_Conflicts example_read_X example_write_X
   \<and> \<not> buffer_Conflicts example_read_X example_read_X
   \<and> \<not> buffer_Conflicts example_write_X example_write_Y
   \<and> resource_Conflicts example_rng_write example_rng_read
   \<and> resource_Conflicts example_rng_read example_rng_write
   \<and> \<not> resource_Conflicts example_rng_read example_rng_read"
proof -
  have ov: "slices_overlap example_slice_X example_slice_X"
    by (simp add: slices_overlap_def example_slice_X_def)
  have nov: "\<not> slices_overlap example_slice_X example_slice_Y"
    by (simp add: slices_overlap_def example_slice_X_def example_slice_Y_def)
  have acc:
    "buffer_slice example_write_X = example_slice_X" "buffer_access example_write_X = Write"
    "buffer_slice example_read_X = example_slice_X" "buffer_access example_read_X = Read"
    "buffer_slice example_write_Y = example_slice_Y" "buffer_access example_write_Y = Write"
    "resource_id example_rng_write = 3" "resource_access example_rng_write = Write"
    "resource_id example_rng_read = 3" "resource_access example_rng_read = Read"
    by (simp_all add: example_write_X_def example_read_X_def example_write_Y_def
        example_rng_write_def example_rng_read_def)
  note wr = Conflicts_overlap_write_symmetric
      [of example_write_X example_read_X example_rng_write example_rng_read]
  note rr = Conflicts_overlap_write_symmetric
      [of example_read_X example_read_X example_rng_read example_rng_read]
  note wy = Conflicts_overlap_write_symmetric
      [of example_write_X example_write_Y example_rng_read example_rng_write]
  have c1: "buffer_Conflicts example_write_X example_read_X"
    using wr ov by (simp only: acc) simp
  have c2: "buffer_Conflicts example_read_X example_write_X"
    using wr c1 by blast
  have c3: "\<not> buffer_Conflicts example_read_X example_read_X"
    using rr acc by blast
  have c4: "\<not> buffer_Conflicts example_write_X example_write_Y"
    using wy nov by (simp only: acc) simp
  have c5: "resource_Conflicts example_rng_write example_rng_read"
    using wr by (simp only: acc) simp
  have c6: "resource_Conflicts example_rng_read example_rng_write"
    using wr c5 by blast
  have c7: "\<not> resource_Conflicts example_rng_read example_rng_read"
    using rr acc by blast
  from c1 c2 c3 c4 c5 c6 c7 show ?thesis
    by blast
qed

text \<open>Appending keeps what is there: a step of a sequence extends it at the end.\<close>

lemma ThunkSequence_step_take:
  "take (length this) (ThunkSequence_step this x) = this"
  by (cases x) (simp_all add: ThunkSequence_Append_def)

lemma ThunkSequence_step_length:
  "length this \<le> length (ThunkSequence_step this x)"
  by (cases x) (simp_all add: ThunkSequence_Append_def)

lemma ThunkSequence_run_take:
  "take (length this) (ThunkSequence_run this xs) = this"
proof (induction xs arbitrary: this)
  case Nil
  show ?case by simp
next
  case (Cons x xs)
  let ?next = "ThunkSequence_step this x"
  have "take (length this) (ThunkSequence_run ?next xs)
        = take (length this) (take (length ?next) (ThunkSequence_run ?next xs))"
    using ThunkSequence_step_length [of this x] by (simp add: min_def)
  also have "\<dots> = take (length this) ?next"
    by (simp only: Cons.IH)
  also have "\<dots> = this"
    by (rule ThunkSequence_step_take)
  finally show ?case by simp
qed

text \<open>
  C2, as the code has it: the member functions \<open>ThunkSequence\<close> itself declares change a
  sequence only through \<open>Append\<close>, which puts the units of the other sequence after the
  units already there; so after any series of these operations the units that were in the
  sequence are still its first units, in the same order.  (The member functions inherited
  from \<open>std::vector\<close> are not bound by this.)
\<close>

theorem ThunkSequence_declared_ops_keep_order:
  "take (length seq) (ThunkSequence_run seq ops) = seq
   \<and> ThunkSequence_step seq (Seq_Append other) = seq @ other"
  using ThunkSequence_run_take [of seq ops]
  by (simp add: ThunkSequence_Append_def)

text \<open>
  C2, as the claim states it (a sequence changes only through append and no public
  operation reorders it), fails on the inherited interface: \<open>clear()\<close> changes a sequence
  to something no append gives, and swapping two elements through \<open>operator[]\<close> reverses
  the order of two units.
\<close>

theorem ThunkSequence_only_append_counterexample:
  "\<not> (\<exists>other. vector_clear [example_thunk_U1] = ThunkSequence_Append [example_thunk_U1] other)
   \<and> vector_swap_elements 0 1 [example_thunk_U1, example_thunk_U2]
       = [example_thunk_U2, example_thunk_U1]
   \<and> example_thunk_U1 \<noteq> example_thunk_U2"
  by (simp add: vector_clear_def ThunkSequence_Append_def vector_swap_elements_def
      example_thunk_U1_def example_thunk_U2_def Thunk_ctor_def)

section \<open>Theorems about the allocator\<close>

subsection \<open>Signed 64-bit arithmetic without overflow\<close>





subsection \<open>The size map\<close>






lemma map_of_map_erase_other: "k' \<noteq> k \<Longrightarrow> map_of (map_erase k m) k' = map_of m k'"
  by (induction m) (auto simp add: map_erase_def)



subsection \<open>The two updates of the statistics keep the invariant\<close>



subsection \<open>The claims\<close>

text \<open>
  C9: freeing the null address is a no-op: \<open>DeallocateRaw(nullptr)\<close> returns at once,
  makes no call into the driver (the history of calls is the same) and leaves the whole
  allocator (statistics, size map, stream) as it was.  In every build.
\<close>

theorem DeallocateRaw_nullptr_noop:
  "DeallocateRaw b drv a calls 0 = Inr (a, calls)"
  by (simp add: DeallocateRaw_def)

text \<open>
  C6, as the code has it: every way \<open>AllocateRaw\<close> ends.  Without
  \<open>TF_CUDA_MALLOC_ASYNC_SUPPORTED\<close> it returns the null address.  With no stream set (the
  state the constructor leaves) or no pool it ends the process.  Otherwise, when the
  driver's last answer is an error (out of memory after the retry, or any other), it
  returns the null address, does not end the process and leaves the allocator, with
  \<open>num_allocs\<close>, \<open>bytes_in_use\<close> and the size map, unchanged; and when the driver's last
  answer is success, it returns the pointer the driver wrote, without testing it for null,
  after the update of the statistics when there are statistics (a debug build ends the
  process instead when the pointer is in the size map already).
\<close>

theorem AllocateRaw_outcomes:
  assumes req: "AllocateRaw_request drv a calls num_bytes = (result, ptr, calls_req)"
  shows "(\<not> TF_CUDA_MALLOC_ASYNC_SUPPORTED b \<longrightarrow>
            AllocateRaw b drv a calls alignment num_bytes = Inr (0, a, calls))
         \<and> (TF_CUDA_MALLOC_ASYNC_SUPPORTED b \<and> cuda_stream' a = 0 \<longrightarrow>
            AllocateRaw b drv a calls alignment num_bytes = Inl CHECK_failed)
         \<and> (TF_CUDA_MALLOC_ASYNC_SUPPORTED b \<and> cuda_stream' a \<noteq> 0 \<and> pool' a = 0 \<longrightarrow>
            AllocateRaw b drv a calls alignment num_bytes = Inl LOG_FATAL)
         \<and> (TF_CUDA_MALLOC_ASYNC_SUPPORTED b \<and> cuda_stream' a \<noteq> 0 \<and> pool' a \<noteq> 0
              \<and> result \<noteq> CUDA_SUCCESS \<longrightarrow>
            (\<exists>calls2. AllocateRaw b drv a calls alignment num_bytes = Inr (0, a, calls2)))
         \<and> (TF_CUDA_MALLOC_ASYNC_SUPPORTED b \<and> cuda_stream' a \<noteq> 0 \<and> pool' a \<noteq> 0
              \<and> result = CUDA_SUCCESS \<and> stats' a = None \<longrightarrow>
            (\<exists>calls2. AllocateRaw b drv a calls alignment num_bytes = Inr (ptr, a, calls2)))
         \<and> (TF_CUDA_MALLOC_ASYNC_SUPPORTED b \<and> cuda_stream' a \<noteq> 0 \<and> pool' a \<noteq> 0
              \<and> result = CUDA_SUCCESS \<and> stats' a = Some st
              \<and> \<not> map_contains ptr (size_map' a) \<longrightarrow>
            (\<exists>calls2. AllocateRaw b drv a calls alignment num_bytes
               = Inr (ptr, a\<lparr>stats' := Some (fst (AllocateRaw_update_stats st (size_map' a) ptr num_bytes)),
                              size_map' := (ptr, num_bytes) # size_map' a\<rparr>, calls2)))
         \<and> (TF_CUDA_MALLOC_ASYNC_SUPPORTED b \<and> cuda_stream' a \<noteq> 0 \<and> pool' a \<noteq> 0
              \<and> result = CUDA_SUCCESS \<and> stats' a = Some st
              \<and> map_contains ptr (size_map' a) \<and> DCHECK_IS_ON b \<longrightarrow>
            AllocateRaw b drv a calls alignment num_bytes = Inl DCHECK_failed)
         \<and> (TF_CUDA_MALLOC_ASYNC_SUPPORTED b \<and> cuda_stream' a \<noteq> 0 \<and> pool' a \<noteq> 0
              \<and> result = CUDA_SUCCESS \<and> stats' a = Some st
              \<and> map_contains ptr (size_map' a) \<and> \<not> DCHECK_IS_ON b \<longrightarrow>
            (\<exists>calls2. AllocateRaw b drv a calls alignment num_bytes
               = Inr (ptr, a\<lparr>stats' := Some (fst (AllocateRaw_update_stats st (size_map' a) ptr num_bytes)), size_map' := size_map' a\<rparr>, calls2)))"
proof (intro conjI impI)
  assume "\<not> TF_CUDA_MALLOC_ASYNC_SUPPORTED b"
  then show "AllocateRaw b drv a calls alignment num_bytes = Inr (0, a, calls)"
    by (simp add: AllocateRaw_def)
next
  assume "TF_CUDA_MALLOC_ASYNC_SUPPORTED b \<and> cuda_stream' a = 0"
  then show "AllocateRaw b drv a calls alignment num_bytes = Inl CHECK_failed"
    by (simp add: AllocateRaw_def)
next
  assume "TF_CUDA_MALLOC_ASYNC_SUPPORTED b \<and> cuda_stream' a \<noteq> 0 \<and> pool' a = 0"
  then show "AllocateRaw b drv a calls alignment num_bytes = Inl LOG_FATAL"
    by (simp add: AllocateRaw_def)
next
  assume "TF_CUDA_MALLOC_ASYNC_SUPPORTED b \<and> cuda_stream' a \<noteq> 0 \<and> pool' a \<noteq> 0
            \<and> result \<noteq> CUDA_SUCCESS"
  with req show "\<exists>calls2. AllocateRaw b drv a calls alignment num_bytes = Inr (0, a, calls2)"
    by (simp add: AllocateRaw_def Let_def)
next
  assume "TF_CUDA_MALLOC_ASYNC_SUPPORTED b \<and> cuda_stream' a \<noteq> 0 \<and> pool' a \<noteq> 0
            \<and> result = CUDA_SUCCESS \<and> stats' a = None"
  with req show "\<exists>calls2. AllocateRaw b drv a calls alignment num_bytes = Inr (ptr, a, calls2)"
    by (simp add: AllocateRaw_def Let_def)
next
  assume h: "TF_CUDA_MALLOC_ASYNC_SUPPORTED b \<and> cuda_stream' a \<noteq> 0 \<and> pool' a \<noteq> 0
            \<and> result = CUDA_SUCCESS \<and> stats' a = Some st
            \<and> \<not> map_contains ptr (size_map' a)"
  then have st: "stats' a = Some st"
    by simp
  from h have "map_emplace ptr num_bytes (size_map' a) = ((ptr, num_bytes) # size_map' a, True)"
    by (simp add: map_emplace_def map_contains_def)
  with req h st
  show "\<exists>calls2. AllocateRaw b drv a calls alignment num_bytes
          = Inr (ptr, a\<lparr>stats' := Some (fst (AllocateRaw_update_stats st (size_map' a) ptr num_bytes)), size_map' := (ptr, num_bytes) # size_map' a\<rparr>, calls2)"
    by (simp add: AllocateRaw_def AllocateRaw_update_stats_def Let_def)
next
  assume h: "TF_CUDA_MALLOC_ASYNC_SUPPORTED b \<and> cuda_stream' a \<noteq> 0 \<and> pool' a \<noteq> 0
            \<and> result = CUDA_SUCCESS \<and> stats' a = Some st
            \<and> map_contains ptr (size_map' a) \<and> DCHECK_IS_ON b"
  then have st: "stats' a = Some st"
    by simp
  from h obtain v where "map_of (size_map' a) ptr = Some v"
    by (auto simp add: map_contains_def)
  then have "map_emplace ptr num_bytes (size_map' a) = (size_map' a, False)"
    by (simp add: map_emplace_def)
  with req h st
  show "AllocateRaw b drv a calls alignment num_bytes = Inl DCHECK_failed"
    by (simp add: AllocateRaw_def AllocateRaw_update_stats_def Let_def)
next
  assume h: "TF_CUDA_MALLOC_ASYNC_SUPPORTED b \<and> cuda_stream' a \<noteq> 0 \<and> pool' a \<noteq> 0
            \<and> result = CUDA_SUCCESS \<and> stats' a = Some st
            \<and> map_contains ptr (size_map' a) \<and> \<not> DCHECK_IS_ON b"
  then have st: "stats' a = Some st"
    by simp
  from h obtain v where "map_of (size_map' a) ptr = Some v"
    by (auto simp add: map_contains_def)
  then have "map_emplace ptr num_bytes (size_map' a) = (size_map' a, False)"
    by (simp add: map_emplace_def)
  with req h st
  show "\<exists>calls2. AllocateRaw b drv a calls alignment num_bytes
          = Inr (ptr, a\<lparr>stats' := Some (fst (AllocateRaw_update_stats st (size_map' a) ptr num_bytes)), size_map' := size_map' a\<rparr>, calls2)"
    by (simp add: AllocateRaw_def AllocateRaw_update_stats_def Let_def)
qed

theorem AllocateRaw_outcomes_witness:
  "(\<exists>calls2. AllocateRaw example_build example_driver_oom example_allocator [] 0 64
       = Inr (0, example_allocator, calls2))
   \<and> (\<exists>calls2. AllocateRaw example_build example_driver_ok example_allocator [] 0 64
       = Inr (0x2000,
              example_allocator
                \<lparr>stats' := Some \<lparr>num_allocs = 2, bytes_in_use = 320, peak_bytes_in_use = 320,
                                  largest_alloc_size = 256\<rparr>,
                 size_map' := [(0x2000, 64), (0x1000, 256)]\<rparr>,
              calls2))
   \<and> AllocateRaw example_build example_driver_ok example_allocator_no_stream [] 0 64
       = Inl CHECK_failed"
proof -
  have sup: "TF_CUDA_MALLOC_ASYNC_SUPPORTED example_build"
    by (simp add: example_build_def)
  have set_up: "cuda_stream' example_allocator \<noteq> 0 \<and> pool' example_allocator \<noteq> 0
      \<and> stats' example_allocator = Some example_stats
      \<and> \<not> map_contains 0x2000 (size_map' example_allocator)"
    by (simp add: example_allocator_def map_contains_def)
  have no_stream: "cuda_stream' example_allocator_no_stream = 0"
    by (simp add: example_allocator_no_stream_def)
  obtain calls1 where oom:
    "AllocateRaw_request example_driver_oom example_allocator [] 64
       = (CUDA_ERROR_OUT_OF_MEMORY, 0, calls1)"
    by (simp add: AllocateRaw_request_def example_driver_oom_def Let_def)
  obtain calls1' where ok:
    "AllocateRaw_request example_driver_ok example_allocator [] 64
       = (CUDA_SUCCESS, 0x2000, calls1')"
    by (simp add: AllocateRaw_request_def example_driver_ok_def Let_def)
  obtain calls1'' where ok':
    "AllocateRaw_request example_driver_ok example_allocator_no_stream [] 64
       = (CUDA_SUCCESS, 0x2000, calls1'')"
    by (simp add: AllocateRaw_request_def example_driver_ok_def Let_def)
  from AllocateRaw_outcomes [OF oom, of example_build 0 example_stats] sup set_up
  have first: "\<exists>calls2. AllocateRaw example_build example_driver_oom example_allocator [] 0 64
       = Inr (0, example_allocator, calls2)"
    by simp
  from AllocateRaw_outcomes [OF ok, of example_build 0 example_stats] sup set_up
  have granted: "\<exists>calls2. AllocateRaw example_build example_driver_ok example_allocator [] 0 64
       = Inr (0x2000,
              example_allocator
                \<lparr>stats' := Some (fst (AllocateRaw_update_stats example_stats
                                          (size_map' example_allocator) 0x2000 64)),
                 size_map' := (0x2000, 64) # size_map' example_allocator\<rparr>,
              calls2)"
    by simp
  have updated: "fst (AllocateRaw_update_stats example_stats (size_map' example_allocator) 0x2000 64)
      = \<lparr>num_allocs = 2, bytes_in_use = 320, peak_bytes_in_use = 320,
         largest_alloc_size = 256\<rparr>"
    by (simp add: AllocateRaw_update_stats_def map_emplace_def example_stats_def
        example_allocator_def Let_def word_sless_alt)
  have entries: "(0x2000, 64) # size_map' example_allocator = [(0x2000, 64), (0x1000, 256)]"
    by (simp add: example_allocator_def)
  from granted
  have second: "\<exists>calls2. AllocateRaw example_build example_driver_ok example_allocator [] 0 64
       = Inr (0x2000,
              example_allocator
                \<lparr>stats' := Some \<lparr>num_allocs = 2, bytes_in_use = 320, peak_bytes_in_use = 320,
                                  largest_alloc_size = 256\<rparr>,
                 size_map' := [(0x2000, 64), (0x1000, 256)]\<rparr>,
              calls2)"
    by (simp only: updated entries)
  from AllocateRaw_outcomes [OF ok', of example_build 0 example_stats] sup no_stream
  have third: "AllocateRaw example_build example_driver_ok example_allocator_no_stream [] 0 64
       = Inl CHECK_failed"
    by simp
  from first second third show ?thesis
    by blast
qed

text \<open>
  C6, as the claim states it (a non-null address on success, the null address with the
  statistics unchanged otherwise, never an abort), fails in two ways.  A driver that
  reports success and leaves the pointer null makes \<open>AllocateRaw\<close> return the null address
  with \<open>num_allocs\<close>, \<open>bytes_in_use\<close> and the size map changed; and on an allocator with no
  stream set the \<open>CHECK\<close> ends the process, whatever the driver would answer.
\<close>

theorem AllocateRaw_address_or_null_counterexample:
  "AllocateRaw example_build example_driver_null example_allocator [] 0 64
     = Inr (0,
            example_allocator
              \<lparr>stats' := Some \<lparr>num_allocs = 2, bytes_in_use = 320, peak_bytes_in_use = 320,
                                largest_alloc_size = 256\<rparr>,
               size_map' := [(0, 64), (0x1000, 256)]\<rparr>,
            [ScopedActivateExecutorContext, cuMemAllocFromPoolAsync 64 0x99 0x77])
   \<and> stats' example_allocator
       = Some \<lparr>num_allocs = 1, bytes_in_use = 256, peak_bytes_in_use = 256,
               largest_alloc_size = 256\<rparr>
   \<and> AllocateRaw example_build example_driver_oom example_allocator_no_stream [] 0 64
     = Inl CHECK_failed"
  by (simp add: AllocateRaw_def AllocateRaw_request_def AllocateRaw_update_stats_def
      map_emplace_def example_build_def example_driver_null_def example_driver_oom_def
      example_allocator_def example_allocator_no_stream_def example_stats_def Let_def
      word_sless_alt)



end
